theory Spec2Isabelle
  imports Complex_Main
begin

section \<open>Conventions of the embedding\<close>

text \<open>
  The two modules \<^verbatim>\<open>p_adjust.py\<close> and \<^verbatim>\<open>rateratio.py\<close> are embedded function by
  function. The sources are Python 2 (\<^verbatim>\<open>p_adjust\<close> iterates with \<^verbatim>\<open>xrange\<close> and compares
  its default \<^verbatim>\<open>n = None\<close> with \<^verbatim>\<open>0\<close>), so the Python 2 meaning of those constructs is
  the one modelled: \<^verbatim>\<open>None > 0\<close> is false.

  Floating-point numbers are modelled by the reals: every arithmetic operation is exact.
  Every \<^verbatim>\<open>raise\<close>, failed \<^verbatim>\<open>assert\<close>, unbound name and division by zero of the
  source is a value \<open>Inl e\<close> of the result type.
\<close>

datatype error =
    AssertionError string
  | NameError string
  | ZeroDivisionError

section \<open>p\_adjust.py\<close>

subsection \<open>numpy arrays\<close>

text \<open>
  A numpy array is its shape together with its elements in flattened (row-major) order.
  \<^verbatim>\<open>np.array\<close> of a flat Python list is one-dimensional; \<^verbatim>\<open>ravel\<close> yields the
  elements; \<^verbatim>\<open>reshape\<close> to the shape the elements came from keeps them in place.
\<close>

record ndarray =
  shape :: "nat list"
  data :: "real list"

datatype pvalues = PyList "real list" | NdArray ndarray

definition np_array :: "real list \<Rightarrow> ndarray" where
  "np_array xs = \<lparr>shape = [length xs], data = xs\<rparr>"

text \<open>Lines 77 and 78: \<^verbatim>\<open>if isinstance(p,list): p=np.array(p)\<close>.\<close>

definition as_array :: "pvalues \<Rightarrow> ndarray" where
  "as_array p = (case p of PyList xs \<Rightarrow> np_array xs | NdArray a \<Rightarrow> a)"

definition ravel :: "ndarray \<Rightarrow> real list" where
  "ravel a = data a"

definition reshape :: "real list \<Rightarrow> nat list \<Rightarrow> ndarray" where
  "reshape xs shp = \<lparr>shape = shp, data = xs\<rparr>"

text \<open>
  \<^verbatim>\<open>np.argsort(p)\<close>: the indices that sort \<open>p\<close> ascending. The model sorts stably;
  numpy's default sort may order equal elements differently.
\<close>

definition argsort :: "real list \<Rightarrow> nat list" where
  "argsort xs = sort_key (\<lambda>i. xs ! i) [0..<length xs]"

text \<open>\<^verbatim>\<open>p[p_ordered]\<close>: the elements of \<open>p\<close> at the given indices, in that order.\<close>

definition take_idx :: "real list \<Rightarrow> nat list \<Rightarrow> real list" where
  "take_idx xs idx = map (\<lambda>i. xs ! i) idx"

text \<open>
  \<^verbatim>\<open>qv = np.zeros(qv.shape); qv[p_ordered] = qv_temp\<close>: element \<open>j\<close> of the values is
  stored at index \<open>p_ordered[j]\<close> of a fresh array of zeros.
\<close>

definition scatter :: "nat list \<Rightarrow> real list \<Rightarrow> real list" where
  "scatter idx vals =
     fold (\<lambda>(i, v) out. out[i := v]) (zip idx vals) (replicate (length vals) 0)"

subsection \<open>Strings\<close>

definition lower_char :: "char \<Rightarrow> char" where
  "lower_char c =
     (let k = (of_char c :: nat) in if 65 \<le> k \<and> k \<le> 90 then char_of (k + 32) else c)"

definition lower :: "string \<Rightarrow> string" where
  "lower s = map lower_char s"

fun join :: "string \<Rightarrow> string list \<Rightarrow> string" where
  "join sep [] = []"
| "join sep [x] = x"
| "join sep (x # y # ys) = x @ sep @ join sep (y # ys)"

subsection \<open>The adjustment\<close>

definition p_adjust_methods :: "string list" where
  "p_adjust_methods = [''fdr'', ''bonferroni'', ''none'']"

text \<open>
  Lines 86 to 89: \<^verbatim>\<open>if n>0: n *= 1. else: n = 1.*len(p)\<close>. The argument is \<open>None\<close>
  when the caller gives no \<open>n\<close>, and \<^verbatim>\<open>None > 0\<close> is false.
\<close>

definition effective_n :: "real option \<Rightarrow> nat \<Rightarrow> real" where
  "effective_n n len =
     (case n of
        None \<Rightarrow> 1 * real len
      | Some v \<Rightarrow> if v > 0 then v * 1 else 1 * real len)"

text \<open>Lines 92 and 93: \<^verbatim>\<open>qv = n * p; qv[qv>1] = 1.\<close>\<close>

definition bonferroni :: "real \<Rightarrow> real list \<Rightarrow> real list" where
  "bonferroni n p = map (\<lambda>q. if q > 1 then 1 else q) (map (\<lambda>x. n * x) p)"

text \<open>
  Lines 124 and 125: the loop \<^verbatim>\<open>for i in xrange(len(p)-2, -1, -1)\<close> runs \<open>i\<close> from
  \<open>len(p) - 2\<close> down to \<open>0\<close> and stores
  \<^verbatim>\<open>min(pi0*n*p[i]/(i+1.0), qv[i+1])\<close> at \<open>i\<close>. Both indices are in range.
\<close>

definition bh_scan :: "real \<Rightarrow> real \<Rightarrow> real list \<Rightarrow> real list \<Rightarrow> real list" where
  "bh_scan pi0 n p qv =
     fold (\<lambda>i qv. qv[i := min (pi0 * n * (p ! i) / (real i + 1)) (qv ! (i + 1))])
       (rev [0..<length p - 1]) qv"

text \<open>
  Lines 119 to 130 with \<open>pi0\<close> given. Line 121 divides the Python float \<open>pi0 * n\<close> by
  \<open>len(p)\<close>, which raises \<open>ZeroDivisionError\<close> when \<open>p\<close> is empty.
\<close>

definition bh_qvalues :: "real \<Rightarrow> real \<Rightarrow> real list \<Rightarrow> error + real list" where
  "bh_qvalues pi0 n p0 =
     (let p_ordered = argsort p0;
          p = take_idx p0 p_ordered
      in if length p = 0 then Inl ZeroDivisionError
         else
           let qv = map (\<lambda>x. pi0 * n / real (length p) * x) p;
               qv = qv[length qv - 1 := min (qv ! (length qv - 1)) 1];
               qv = bh_scan pi0 n p qv
           in Inr (scatter p_ordered qv))"

text \<open>
  The function \<^verbatim>\<open>p_adjust\<close>. With at least 100 p-values and method \<open>fdr\<close>, line 104
  evaluates \<^verbatim>\<open>sp.arange(0, 0.9, 0.01)\<close>; no name \<open>sp\<close> is bound in the module (numpy is
  imported as \<open>np\<close>), so the call raises \<open>NameError\<close> there and the rest of that branch
  (which also reads the unbound name \<open>m\<close>) is never reached. With fewer than 100
  p-values \<open>pi0\<close> is \<open>1.0\<close>, so the warning of line 117 is never printed.
\<close>

definition p_adjust :: "pvalues \<Rightarrow> string \<Rightarrow> real option \<Rightarrow> error + ndarray" where
  "p_adjust p meth n =
     (let meth1 = lower meth;
          meth2 = (if meth1 = ''bh'' then ''fdr'' else meth1)
      in if meth2 \<notin> set p_adjust_methods
         then Inl (AssertionError
                (''ERROR! method must be one of '' @ join '','' p_adjust_methods))
         else
           let arr = as_array p
           in if meth2 = ''none'' then Inr arr
              else
                let original_shape = shape arr;
                    flat = ravel arr;
                    n1 = effective_n n (length flat)
                in if meth2 = ''bonferroni''
                   then Inr (reshape (bonferroni n1 flat) original_shape)
                   else if length flat < 100
                   then (case bh_qvalues 1 n1 flat of
                           Inl e \<Rightarrow> Inl e
                         | Inr qv \<Rightarrow> Inr (reshape qv original_shape))
                   else Inl (NameError ''sp''))"

section \<open>rateratio.py\<close>

subsection \<open>The distribution functions taken from scipy\<close>

text \<open>
  \<^verbatim>\<open>pbinom = binom.cdf\<close>: the distribution function of Binomial(\<open>n\<close>, \<open>p\<close>) at
  \<open>k\<close>, the sum of the point probabilities of \<open>0, \<dots>, k\<close>; it is \<open>0\<close> below \<open>0\<close>
  and the whole sum from \<open>n\<close> on.
\<close>

definition pbinom :: "int \<Rightarrow> int \<Rightarrow> real \<Rightarrow> real" where
  "pbinom k n p =
     (if k < 0 then 0
      else (\<Sum>i\<le>nat (min k n). real (nat n choose i) * p ^ i * (1 - p) ^ (nat n - i)))"

text \<open>
  The distribution function of Beta(\<open>a\<close>, \<open>b\<close>) for whole \<open>a, b \<ge> 1\<close> is the
  probability that Binomial(\<open>a + b - 1\<close>, \<open>x\<close>) is at least \<open>a\<close>; the callers below pass
  whole shape parameters only. \<^verbatim>\<open>qbeta = beta.ppf\<close> is its inverse on the unit interval.
\<close>

definition pbeta :: "real \<Rightarrow> nat \<Rightarrow> nat \<Rightarrow> real" where
  "pbeta x a b =
     (\<Sum>j = a..a + b - 1. real ((a + b - 1) choose j) * x ^ j * (1 - x) ^ (a + b - 1 - j))"

definition qbeta :: "real \<Rightarrow> int \<Rightarrow> int \<Rightarrow> real" where
  "qbeta q a b = (THE x. 0 \<le> x \<and> x \<le> 1 \<and> pbeta x (nat a) (nat b) = q)"

subsection \<open>Numbers of mixed kind\<close>

text \<open>
  \<^verbatim>\<open>p_L\<close> and \<^verbatim>\<open>p_U\<close> return either a Python integer literal or the numpy float
  that \<^verbatim>\<open>qbeta\<close> returns. Dividing Python numbers by zero raises; dividing by a numpy
  float that is zero does not, it yields an infinity or a NaN.
\<close>

datatype pynum = PyInt int | NpFloat real

datatype xreal = Fin real | PInf | MInf | NaN

definition np_div :: "real \<Rightarrow> real \<Rightarrow> xreal" where
  "np_div a b =
     (if b \<noteq> 0 then Fin (a / b) else if a > 0 then PInf else if a < 0 then MInf else NaN)"

text \<open>
  The expression \<^verbatim>\<open>(q*M)/(N*(1-q))\<close> of lines 164, 168, 172 and 173, where \<open>q\<close> is
  the value of \<^verbatim>\<open>p_L\<close> or \<^verbatim>\<open>p_U\<close>.
\<close>

fun ratio_bound :: "pynum \<Rightarrow> real \<Rightarrow> real \<Rightarrow> error + xreal" where
  "ratio_bound (PyInt q) N M =
     (if N * (1 - real_of_int q) = 0 then Inl ZeroDivisionError
      else Inr (Fin ((real_of_int q * M) / (N * (1 - real_of_int q)))))"
| "ratio_bound (NpFloat q) N M = Inr (np_div (q * M) (N * (1 - q)))"

subsection \<open>The test\<close>

text \<open>
  The class \<^verbatim>\<open>htest\<close>. The field \<^verbatim>\<open>data_name\<close>, a formatted description of the
  arguments, is left out: no other field depends on it.
\<close>

record htest =
  p_value :: real
  estimate :: "real list"
  null_value :: real
  conf_int :: "xreal list"
  alternative :: string
  method_descr :: string

definition p_L :: "int \<Rightarrow> int \<Rightarrow> real \<Rightarrow> pynum" where
  "p_L x n alpha = (if x = 0 then PyInt 0 else NpFloat (qbeta alpha x (n - x + 1)))"

definition p_U :: "int \<Rightarrow> int \<Rightarrow> real \<Rightarrow> pynum" where
  "p_U x n alpha = (if x = n then PyInt 1 else NpFloat (qbeta (1 - alpha) (x + 1) (n - x)))"

text \<open>Lines 137 to 142: the shorthands of the alternative.\<close>

definition match_arg :: "string \<Rightarrow> string" where
  "match_arg a =
     (if a = ''t'' \<or> a = ''two_sided'' then ''two.sided''
      else if a = ''g'' then ''greater''
      else if a = ''l'' then ''less''
      else a)"

text \<open>
  Lines 161 to 173: the p-value and the two bounds of the interval, by alternative. The
  alternative is one of the three when this is reached.
\<close>

definition p_value_and_interval ::
  "string \<Rightarrow> int \<Rightarrow> int \<Rightarrow> real \<Rightarrow> real \<Rightarrow> real \<Rightarrow> real \<Rightarrow> real
     \<Rightarrow> error + real \<times> xreal list" where
  "p_value_and_interval alt Y X N M pval_less pval_greater conf_level =
     (if alt = ''less'' then
        (case ratio_bound (p_U Y (X + Y) (1 - conf_level)) N M of
           Inl e \<Rightarrow> Inl e
         | Inr hi \<Rightarrow> Inr (pval_less, [Fin 0, hi]))
      else if alt = ''greater'' then
        (case ratio_bound (p_L Y (X + Y) (1 - conf_level)) N M of
           Inl e \<Rightarrow> Inl e
         | Inr lo \<Rightarrow> Inr (pval_greater, [lo, PInf]))
      else
        (case ratio_bound (p_L Y (X + Y) ((1 - conf_level) / 2)) N M of
           Inl e \<Rightarrow> Inl e
         | Inr lo \<Rightarrow>
             (case ratio_bound (p_U Y (X + Y) ((1 - conf_level) / 2)) N M of
                Inl e \<Rightarrow> Inl e
              | Inr hi \<Rightarrow> Inr (min 1 (2 * min pval_less pval_greater), [lo, hi]))))"

text \<open>
  The function \<^verbatim>\<open>test\<close>. Line 156 divides the Python float \<^verbatim>\<open>1.*Y/N\<close> by the
  Python float \<^verbatim>\<open>1.*X/M\<close>, which raises \<open>ZeroDivisionError\<close> when the second count
  \<open>X\<close> is \<open>0\<close>.
\<close>

definition alternative_message :: string where
  "alternative_message =
     ''Error in match.arg(alternative) : '' @ [CHR 0x0A] @
     ''  'arg' should be one of '' @ [CHR 0x22] @ ''two.sided'' @ [CHR 0x22] @
     '', '' @ [CHR 0x22] @ ''less'' @ [CHR 0x22] @
     '', '' @ [CHR 0x22] @ ''greater'' @ [CHR 0x22]"

definition test :: "int list \<Rightarrow> real list \<Rightarrow> real \<Rightarrow> string \<Rightarrow> real \<Rightarrow> error + htest" where
  "test x n RR alt conf_level =
     (let k = length x
      in if k \<noteq> 2 then Inl (AssertionError ''x must have a length 2'')
         else if k \<noteq> length n
         then Inl (AssertionError '''x' and 'n' must have the same length'')
         else if \<not> min_list n > 0
         then Inl (AssertionError ''elements of 'n' must be positive'')
         else if \<not> min_list x \<ge> 0
         then Inl (AssertionError ''elements of 'x' must be nonnegative'')
         else if \<not> RR > 0
         then Inl (AssertionError ''RR must be greater than 0'')
         else
           let alt1 = match_arg alt
           in if alt1 \<notin> {''two.sided'', ''less'', ''greater''}
              then Inl (AssertionError alternative_message)
              else if \<not> (conf_level > 0 \<and> conf_level < 1)
              then Inl (AssertionError
                     '''conf.level' must be a single number between 0 and 1'')
              else
                let Y = x ! 0; N = n ! 0; X = x ! 1; M = n ! 1
                in if 1 * real_of_int X / M = 0 then Inl ZeroDivisionError
                   else
                     let est = [(1 * real_of_int Y / N) / (1 * real_of_int X / M),
                                1 * real_of_int Y / N, 1 * real_of_int X / M];
                         pRR = (1 * N * RR) / (N * RR + M);
                         pval_less = pbinom Y (X + Y) pRR;
                         pval_greater = 1 - pbinom (Y - 1) (Y + X) pRR
                     in case p_value_and_interval alt1 Y X N M
                               pval_less pval_greater conf_level of
                          Inl e \<Rightarrow> Inl e
                        | Inr (pv, ci) \<Rightarrow>
                            Inr \<lparr>p_value = pv, estimate = est, null_value = RR,
                                 conf_int = ci @ [Fin conf_level], alternative = alt1,
                                 method_descr =
                                   ''Exact Rate Ratio Test, assuming Poisson counts''\<rparr>)"

text \<open>
  The arguments that pass every assertion of lines 129 to 148, in the order in which the
  source checks them.
\<close>

definition valid_args :: "int list \<Rightarrow> real list \<Rightarrow> real \<Rightarrow> string \<Rightarrow> real \<Rightarrow> bool" where
  "valid_args x n RR alt conf_level \<longleftrightarrow>
     length x = 2 \<and> length x = length n \<and> min_list n > 0 \<and> min_list x \<ge> 0 \<and> RR > 0 \<and>
     match_arg alt \<in> {''two.sided'', ''less'', ''greater''} \<and>
     conf_level > 0 \<and> conf_level < 1"

subsection \<open>The interval in the words of the specification\<close>

text \<open>
  The specification's bound functions for a count \<open>x\<close> out of \<open>N\<close> trials at tail
  \<open>a\<close>, and its transform of a proportion \<open>q\<close> to the rate-ratio scale. They are
  written from the specification, to be compared with what \<^verbatim>\<open>test\<close> returns.
\<close>

definition spec_lower_proportion :: "int \<Rightarrow> int \<Rightarrow> real \<Rightarrow> real" where
  "spec_lower_proportion x N a = (if x = 0 then 0 else qbeta a x (N - x + 1))"

definition spec_upper_proportion :: "int \<Rightarrow> int \<Rightarrow> real \<Rightarrow> real" where
  "spec_upper_proportion x N a = (if x = N then 1 else qbeta (1 - a) (x + 1) (N - x))"

definition spec_transform :: "real \<Rightarrow> real \<Rightarrow> real \<Rightarrow> xreal" where
  "spec_transform q n0 n1 = np_div (q * n1) (n0 * (1 - q))"

text \<open>
  The interval the specification assigns to each alternative: the lower-bound proportion
  under \<open>less\<close>, the upper-bound proportion under \<open>greater\<close>, both under \<open>two.sided\<close>.
\<close>

definition spec_conf_int :: "string \<Rightarrow> int \<Rightarrow> int \<Rightarrow> real \<Rightarrow> real \<Rightarrow> real \<Rightarrow> xreal list" where
  "spec_conf_int alt x0 x1 n0 n1 conf_level =
     (if alt = ''less'' then
        [Fin 0, spec_transform (spec_lower_proportion x0 (x0 + x1) (1 - conf_level)) n0 n1]
      else if alt = ''greater'' then
        [spec_transform (spec_upper_proportion x0 (x0 + x1) (1 - conf_level)) n0 n1, PInf]
      else
        [spec_transform (spec_lower_proportion x0 (x0 + x1) ((1 - conf_level) / 2)) n0 n1,
         spec_transform (spec_upper_proportion x0 (x0 + x1) ((1 - conf_level) / 2)) n0 n1])"

section \<open>Facts about p\_adjust\<close>

subsection \<open>Evaluating the method name\<close>

lemma lower_fdr: "lower ''fdr'' = ''fdr''"
  by (simp add: lower_def lower_char_def)

lemma lower_bonferroni: "lower ''bonferroni'' = ''bonferroni''"
  by (simp add: lower_def lower_char_def)

lemma lower_holm: "lower ''holm'' = ''holm''"
  by (simp add: lower_def lower_char_def)

lemma join_methods: "join '','' p_adjust_methods = ''fdr,bonferroni,none''"
  by (simp add: p_adjust_methods_def)

lemma p_adjust_unknown_method:
  "lower meth \<notin> {''bh'', ''fdr'', ''bonferroni'', ''none''} \<Longrightarrow>
   p_adjust p meth k = Inl (AssertionError ''ERROR! method must be one of fdr,bonferroni,none'')"
  by (simp add: p_adjust_def Let_def join_methods) (simp add: p_adjust_methods_def)

subsection \<open>Lengths\<close>

lemma length_argsort: "length (argsort xs) = length xs"
  by (simp add: argsort_def)

lemma length_fold_update:
  "length (fold (\<lambda>i qv. qv[i := f i qv]) js qv) = length qv"
  by (induction js arbitrary: qv) simp_all

lemma length_bh_scan: "length (bh_scan pi0 n p qv) = length qv"
  unfolding bh_scan_def by (rule length_fold_update)

lemma length_fold_scatter:
  "length (fold (\<lambda>(i, v) out. out[i := v]) ivs out) = length out"
  by (induction ivs arbitrary: out) (simp_all add: case_prod_beta)

lemma length_scatter: "length (scatter idx vals) = length vals"
  unfolding scatter_def by (simp add: length_fold_scatter)

lemma length_bh_qvalues: "bh_qvalues pi0 n p = Inr qv \<Longrightarrow> length qv = length p"
  by (auto simp: bh_qvalues_def Let_def length_scatter length_bh_scan take_idx_def
      length_argsort split: if_splits)

lemma bh_qvalues_returns: "p \<noteq> [] \<Longrightarrow> \<exists>qv. bh_qvalues pi0 n p = Inr qv"
  using length_argsort[of p] by (auto simp: bh_qvalues_def Let_def take_idx_def)

text \<open>
  Whenever \<^verbatim>\<open>p_adjust\<close> returns an array, it has the shape and the number of elements
  of its input.
\<close>

lemma p_adjust_shape:
  assumes "p_adjust p meth n = Inr q"
  shows "shape q = shape (as_array p) \<and> length (data q) = length (data (as_array p))"
  using assms
  by (auto simp: p_adjust_def Let_def reshape_def ravel_def bonferroni_def
      dest: length_bh_qvalues split: if_splits sum.splits)

text \<open>
  It returns an array for the methods \<open>none\<close> and \<open>bonferroni\<close>, and for \<open>fdr\<close> on
  between 1 and 99 p-values.
\<close>

lemma p_adjust_fdr_returns:
  assumes "data (as_array p) \<noteq> []" and "length (data (as_array p)) < 100"
  shows "\<exists>q. p_adjust p ''fdr'' n = Inr q"
proof -
  obtain qv where "bh_qvalues 1 (effective_n n (length (data (as_array p)))) (data (as_array p))
      = Inr qv"
    using bh_qvalues_returns[OF assms(1)] by blast
  with assms(2) show ?thesis
    by (simp add: p_adjust_def lower_fdr p_adjust_methods_def Let_def ravel_def)
qed

lemma p_adjust_fdr_large:
  "100 \<le> length (data (as_array p)) \<Longrightarrow> p_adjust p ''fdr'' n = Inl (NameError ''sp'')"
  by (simp add: p_adjust_def lower_fdr p_adjust_methods_def ravel_def)

lemma p_adjust_fdr_single:
  "p_adjust (PyList [x]) ''fdr'' n =
     Inr \<lparr>shape = [1], data = [min (effective_n n 1 * x) 1]\<rparr>"
  by (simp add: p_adjust_def lower_fdr p_adjust_methods_def as_array_def np_array_def ravel_def
       bh_qvalues_def argsort_def take_idx_def bh_scan_def scatter_def reshape_def)

subsection \<open>The documented example\<close>

lemma fdr_example_value:
  "p_adjust (PyList [3/100, 1/5, 2/5]) ''fdr'' None =
     Inr \<lparr>shape = [3], data = [9/100, 3/10, 2/5]\<rparr>"
  by (simp add: p_adjust_def lower_fdr p_adjust_methods_def as_array_def np_array_def ravel_def
      effective_n_def bh_qvalues_def argsort_def take_idx_def bh_scan_def scatter_def reshape_def
      upt_rec numeral_2_eq_2 numeral_3_eq_3)

text \<open>
  Claim C1 says that \<^verbatim>\<open>p_adjust([0.03, 0.2, 0.4], method="fdr")\<close> with the default
  \<open>n\<close> returns \<open>[0.4, 0.4, 0.4]\<close>. It does not: the raw values \<open>0.09, 0.3, 0.4\<close> are
  already non-decreasing, so the running minimum from the right leaves them as they are.
\<close>

theorem fdr_example_not_all_equal:
  "p_adjust (PyList [3/100, 1/5, 2/5]) ''fdr'' None
     \<noteq> Inr \<lparr>shape = [3], data = [2/5, 2/5, 2/5]\<rparr>"
  by (simp add: fdr_example_value)

text \<open>
  Claim C1, amended: for the input \<open>[0.03, 0.2, 0.4]\<close> with method \<open>fdr\<close> and the default
  \<open>n\<close>, \<^verbatim>\<open>p_adjust\<close> returns \<open>[0.09, 0.3, 0.4]\<close> (the branch for fewer than 100
  p-values, \<open>pi0 = 1\<close>): the raw Benjamini-Hochberg values, which the running minimum
  from the right does not change.
\<close>

theorem fdr_example_adjusted:
  "p_adjust (PyList [3/100, 1/5, 2/5]) ''fdr'' None =
     Inr \<lparr>shape = [3], data = [9/100, 3/10, 2/5]\<rparr>"
  by (rule fdr_example_value)

subsection \<open>The branch for 100 p-values or more\<close>

text \<open>
  Claim C4 says that for every collection of at least 100 p-values and method \<open>fdr\<close>,
  \<^verbatim>\<open>p_adjust\<close> estimates \<open>pi0\<close> from a spline over the grid of thresholds and returns a
  result, never failing. The code raises \<open>NameError\<close> at the first use of the unbound
  name \<open>sp\<close>: on 100 p-values equal to \<open>0.5\<close> no result is returned.
\<close>

theorem fdr_hundred_raises_name_error:
  "p_adjust (PyList (replicate 100 (1/2))) ''fdr'' None = Inl (NameError ''sp'')"
  by (simp add: p_adjust_fdr_large as_array_def np_array_def)

subsection \<open>Bonferroni\<close>

lemma bonferroni_nth:
  "i < length p \<Longrightarrow> bonferroni n p ! i = min 1 (n * p ! i)"
  by (simp add: bonferroni_def min_def)

lemma p_adjust_bonferroni_value:
  "p_adjust p ''bonferroni'' n =
     Inr \<lparr>shape = shape (as_array p),
          data = bonferroni (effective_n n (length (data (as_array p)))) (data (as_array p))\<rparr>"
  by (simp add: p_adjust_def lower_bonferroni p_adjust_methods_def Let_def reshape_def ravel_def)

lemma effective_n_positive: "0 < v \<Longrightarrow> effective_n (Some v) len = v"
  by (simp add: effective_n_def)

lemma effective_n_default: "effective_n None len = real len"
  by (simp add: effective_n_def)

text \<open>
  Claim C5: for every p-value collection and every \<open>n\<close>, with method \<open>bonferroni\<close> the
  output at each position \<open>i\<close> equals \<open>min(1, n * p[i])\<close>, so every output is at most
  \<open>1\<close>, and increasing \<open>n\<close> never decreases any output element.

  Here \<open>n\<close> is the comparison count in effect, \<open>effective_n\<close>: the argument when it is
  positive, the number of p-values when it is absent or not positive. A positive argument
  is the count in effect (\<open>effective_n_positive\<close>), so for two positive arguments
  \<open>n \<le> n'\<close> the hypothesis on the counts in effect is \<open>n \<le> n'\<close>. The p-values are not
  negative.
\<close>

theorem bonferroni_capped_monotone:
  "(\<exists>q. p_adjust p ''bonferroni'' n = Inr q \<and>
        shape q = shape (as_array p) \<and>
        length (data q) = length (data (as_array p)) \<and>
        (\<forall>i < length (data (as_array p)).
           data q ! i =
             min 1 (effective_n n (length (data (as_array p))) * data (as_array p) ! i) \<and>
           data q ! i \<le> 1)) \<and>
   ((\<forall>v \<in> set (data (as_array p)). 0 \<le> v) \<longrightarrow>
    effective_n n (length (data (as_array p)))
      \<le> effective_n n' (length (data (as_array p))) \<longrightarrow>
    (\<forall>q q'. p_adjust p ''bonferroni'' n = Inr q \<longrightarrow>
            p_adjust p ''bonferroni'' n' = Inr q' \<longrightarrow>
       (\<forall>i < length (data (as_array p)). data q ! i \<le> data q' ! i)))"
proof (intro conjI impI allI)
  show "\<exists>q. p_adjust p ''bonferroni'' n = Inr q \<and>
        shape q = shape (as_array p) \<and>
        length (data q) = length (data (as_array p)) \<and>
        (\<forall>i < length (data (as_array p)).
           data q ! i =
             min 1 (effective_n n (length (data (as_array p))) * data (as_array p) ! i) \<and>
           data q ! i \<le> 1)"
    by (simp add: p_adjust_bonferroni_value bonferroni_nth) (simp add: bonferroni_def)
next
  fix q q' i
  let ?len = "length (data (as_array p))"
  assume nonneg: "\<forall>v \<in> set (data (as_array p)). 0 \<le> v"
    and le: "effective_n n ?len \<le> effective_n n' ?len"
    and q: "p_adjust p ''bonferroni'' n = Inr q"
    and q': "p_adjust p ''bonferroni'' n' = Inr q'"
    and i: "i < ?len"
  from nonneg i have "0 \<le> data (as_array p) ! i" by simp
  with le have "effective_n n ?len * data (as_array p) ! i
      \<le> effective_n n' ?len * data (as_array p) ! i"
    by (rule mult_right_mono)
  then have "min 1 (effective_n n ?len * data (as_array p) ! i)
      \<le> min 1 (effective_n n' ?len * data (as_array p) ! i)"
    by simp
  moreover from q have "data q = bonferroni (effective_n n ?len) (data (as_array p))"
    by (simp add: p_adjust_bonferroni_value) (metis ndarray.select_convs(2))
  moreover from q' have "data q' = bonferroni (effective_n n' ?len) (data (as_array p))"
    by (simp add: p_adjust_bonferroni_value) (metis ndarray.select_convs(2))
  ultimately show "data q ! i \<le> data q' ! i"
    using i by (simp add: bonferroni_nth)
qed

theorem bonferroni_capped_monotone_witness:
  "0 \<le> (1/5::real) \<and> 0 \<le> (1/2::real) \<and>
   effective_n (Some 3) 2 \<le> effective_n (Some 5) 2 \<and>
   map_sum id data (p_adjust (PyList [1/5, 1/2]) ''bonferroni'' (Some 3)) = Inr [3/5, 1] \<and>
   map_sum id data (p_adjust (PyList [1/5, 1/2]) ''bonferroni'' (Some 5)) = Inr [1, 1]"
proof -
  let ?p = "PyList [1/5, 1/2]"
  let ?len = "length (data (as_array ?p))"
  have len: "?len = 2"
    by (simp add: as_array_def np_array_def)
  have nonneg: "\<forall>v \<in> set (data (as_array ?p)). 0 \<le> v"
    by (simp add: as_array_def np_array_def)
  have le: "effective_n (Some 3) ?len \<le> effective_n (Some 5) ?len"
    by (simp add: effective_n_def)
  from bonferroni_capped_monotone[of ?p "Some 3" "Some 5"]
  obtain q where q: "p_adjust ?p ''bonferroni'' (Some 3) = Inr q"
    and qv: "\<forall>i < ?len. data q ! i = min 1 (effective_n (Some 3) ?len * data (as_array ?p) ! i)"
    and ql: "length (data q) = ?len"
    by blast
  from bonferroni_capped_monotone[of ?p "Some 5" "Some 5"]
  obtain q' where q': "p_adjust ?p ''bonferroni'' (Some 5) = Inr q'"
    and qv': "\<forall>i < ?len. data q' ! i = min 1 (effective_n (Some 5) ?len * data (as_array ?p) ! i)"
    and ql': "length (data q') = ?len"
    by blast
  from bonferroni_capped_monotone[of ?p "Some 3" "Some 5"] nonneg le q q'
  have mono: "\<forall>i < ?len. data q ! i \<le> data q' ! i"
    by blast
  have "data q = [3/5, 1]"
    using qv ql
    by (intro nth_equalityI)
       (auto simp: as_array_def np_array_def effective_n_def less_Suc_eq numeral_2_eq_2)
  moreover have "data q' = [1, 1]"
    using qv' ql'
    by (intro nth_equalityI)
       (auto simp: as_array_def np_array_def effective_n_def less_Suc_eq numeral_2_eq_2)
  ultimately show ?thesis
    using le q q' mono by (simp add: len)
qed

subsection \<open>Small inputs of the method fdr\<close>

text \<open>
  Claim C6 says that \<^verbatim>\<open>p_adjust\<close> with method \<open>fdr\<close> returns normally on a
  single-element collection and on an empty collection. On one element it does
  (\<open>p_adjust_fdr_single\<close>). On the empty collection line 121 divides by \<open>len(p) = 0\<close>
  and the call raises \<open>ZeroDivisionError\<close>.
\<close>

theorem fdr_empty_raises:
  "p_adjust (PyList []) ''fdr'' None = Inl ZeroDivisionError"
  by (simp add: p_adjust_def lower_fdr p_adjust_methods_def as_array_def np_array_def ravel_def
      effective_n_def bh_qvalues_def argsort_def take_idx_def)

subsection \<open>Shape of the output\<close>

text \<open>
  Claim C9 says that for every p-value collection and every recognized method the output
  of \<^verbatim>\<open>p_adjust\<close> has the length and the shape of the input. Every array that
  \<^verbatim>\<open>p_adjust\<close> returns has them (\<open>p_adjust_shape\<close>), but with method \<open>fdr\<close> there is no
  output for an input of 100 elements or more, nor for an empty one: on a 10 by 10 array
  the call raises \<open>NameError\<close>.
\<close>

theorem fdr_matrix_no_output:
  "p_adjust (NdArray \<lparr>shape = [10, 10], data = replicate 100 (1/2)\<rparr>) ''fdr'' None =
     Inl (NameError ''sp'')"
  by (simp add: p_adjust_fdr_large as_array_def)

section \<open>Facts about the rate-ratio test\<close>

subsection \<open>The argument checks\<close>

lemma min_list_gr_iff: "xs \<noteq> [] \<Longrightarrow> c < min_list xs \<longleftrightarrow> (\<forall>e \<in> set xs. c < e)"
  for c :: "'a::linorder"
  by (simp add: min_list_Min)

lemma min_list_ge_iff: "xs \<noteq> [] \<Longrightarrow> c \<le> min_list xs \<longleftrightarrow> (\<forall>e \<in> set xs. c \<le> e)"
  for c :: "'a::linorder"
  by (simp add: min_list_Min)

lemma length_2_nonempty: "length xs = 2 \<Longrightarrow> xs \<noteq> []"
  by auto

lemma valid_args_pair:
  "valid_args [x0, x1] [n0, n1] RR alt cl \<longleftrightarrow>
     0 < n0 \<and> 0 < n1 \<and> 0 \<le> x0 \<and> 0 \<le> x1 \<and> 0 < RR \<and>
     match_arg alt \<in> {''two.sided'', ''less'', ''greater''} \<and> 0 < cl \<and> cl < 1"
  by (auto simp: valid_args_def)

lemma test_invalid:
  "\<not> valid_args x n RR alt cl \<Longrightarrow> \<exists>msg. test x n RR alt cl = Inl (AssertionError msg)"
  by (auto simp: valid_args_def test_def Let_def)

text \<open>
  Claim C7: every invalid argument raises an immediate hard failure whose message
  identifies the violated constraint, and no result is returned: an unknown method in
  \<^verbatim>\<open>p_adjust\<close>; in \<^verbatim>\<open>test\<close>, \<open>x\<close> or \<open>n\<close> not of length 2, an exposure that is not
  positive, a negative count, \<open>RR\<close> not greater than 0, an unrecognized alternative, a
  \<open>conf_level\<close> outside the open interval from 0 to 1. The checks run in this order, and
  the message is that of the first one that fails.
\<close>

theorem invalid_arguments_raise:
  "(lower meth \<notin> {''bh'', ''fdr'', ''bonferroni'', ''none''} \<longrightarrow>
      p_adjust p meth k =
        Inl (AssertionError ''ERROR! method must be one of fdr,bonferroni,none'')) \<and>
   (length x \<noteq> 2 \<longrightarrow>
      test x n RR alt cl = Inl (AssertionError ''x must have a length 2'')) \<and>
   (length x = 2 \<and> length n \<noteq> 2 \<longrightarrow>
      test x n RR alt cl = Inl (AssertionError '''x' and 'n' must have the same length'')) \<and>
   (length x = 2 \<and> length n = 2 \<and> (\<exists>e \<in> set n. e \<le> 0) \<longrightarrow>
      test x n RR alt cl = Inl (AssertionError ''elements of 'n' must be positive'')) \<and>
   (length x = 2 \<and> length n = 2 \<and> (\<forall>e \<in> set n. 0 < e) \<and> (\<exists>c \<in> set x. c < 0) \<longrightarrow>
      test x n RR alt cl = Inl (AssertionError ''elements of 'x' must be nonnegative'')) \<and>
   (length x = 2 \<and> length n = 2 \<and> (\<forall>e \<in> set n. 0 < e) \<and> (\<forall>c \<in> set x. 0 \<le> c) \<and>
    RR \<le> 0 \<longrightarrow>
      test x n RR alt cl = Inl (AssertionError ''RR must be greater than 0'')) \<and>
   (length x = 2 \<and> length n = 2 \<and> (\<forall>e \<in> set n. 0 < e) \<and> (\<forall>c \<in> set x. 0 \<le> c) \<and>
    0 < RR \<and> match_arg alt \<notin> {''two.sided'', ''less'', ''greater''} \<longrightarrow>
      test x n RR alt cl = Inl (AssertionError alternative_message)) \<and>
   (length x = 2 \<and> length n = 2 \<and> (\<forall>e \<in> set n. 0 < e) \<and> (\<forall>c \<in> set x. 0 \<le> c) \<and>
    0 < RR \<and> match_arg alt \<in> {''two.sided'', ''less'', ''greater''} \<and>
    (cl \<le> 0 \<or> 1 \<le> cl) \<longrightarrow>
      test x n RR alt cl =
        Inl (AssertionError '''conf.level' must be a single number between 0 and 1'')) \<and>
   (\<not> valid_args x n RR alt cl \<longrightarrow> (\<exists>msg. test x n RR alt cl = Inl (AssertionError msg)))"
proof (intro conjI impI)
  assume "lower meth \<notin> {''bh'', ''fdr'', ''bonferroni'', ''none''}"
  then show "p_adjust p meth k =
        Inl (AssertionError ''ERROR! method must be one of fdr,bonferroni,none'')"
    by (rule p_adjust_unknown_method)
next
  assume "length x \<noteq> 2"
  then show "test x n RR alt cl = Inl (AssertionError ''x must have a length 2'')"
    by (simp add: test_def)
next
  assume "length x = 2 \<and> length n \<noteq> 2"
  then show "test x n RR alt cl =
      Inl (AssertionError '''x' and 'n' must have the same length'')"
    by (simp add: test_def)
next
  assume h: "length x = 2 \<and> length n = 2 \<and> (\<exists>e \<in> set n. e \<le> 0)"
  then have "\<not> 0 < min_list n"
    by (auto simp: min_list_gr_iff[OF length_2_nonempty] not_less)
  with h show "test x n RR alt cl = Inl (AssertionError ''elements of 'n' must be positive'')"
    by (simp add: test_def)
next
  assume h: "length x = 2 \<and> length n = 2 \<and> (\<forall>e \<in> set n. 0 < e) \<and> (\<exists>c \<in> set x. c < 0)"
  then have "0 < min_list n" "\<not> 0 \<le> min_list x"
    by (auto simp: min_list_gr_iff[OF length_2_nonempty] min_list_ge_iff[OF length_2_nonempty]
        not_le)
  with h show "test x n RR alt cl =
      Inl (AssertionError ''elements of 'x' must be nonnegative'')"
    by (simp add: test_def)
next
  assume h: "length x = 2 \<and> length n = 2 \<and> (\<forall>e \<in> set n. 0 < e) \<and>
    (\<forall>c \<in> set x. 0 \<le> c) \<and> RR \<le> 0"
  then have "0 < min_list n" "0 \<le> min_list x"
    by (auto simp: min_list_gr_iff[OF length_2_nonempty] min_list_ge_iff[OF length_2_nonempty])
  with h show "test x n RR alt cl = Inl (AssertionError ''RR must be greater than 0'')"
    by (simp add: test_def)
next
  assume h: "length x = 2 \<and> length n = 2 \<and> (\<forall>e \<in> set n. 0 < e) \<and>
    (\<forall>c \<in> set x. 0 \<le> c) \<and> 0 < RR \<and>
    match_arg alt \<notin> {''two.sided'', ''less'', ''greater''}"
  then have "0 < min_list n" "0 \<le> min_list x"
    by (auto simp: min_list_gr_iff[OF length_2_nonempty] min_list_ge_iff[OF length_2_nonempty])
  with h show "test x n RR alt cl = Inl (AssertionError alternative_message)"
    by (simp add: test_def Let_def)
next
  assume h: "length x = 2 \<and> length n = 2 \<and> (\<forall>e \<in> set n. 0 < e) \<and>
    (\<forall>c \<in> set x. 0 \<le> c) \<and> 0 < RR \<and>
    match_arg alt \<in> {''two.sided'', ''less'', ''greater''} \<and> (cl \<le> 0 \<or> 1 \<le> cl)"
  then have "0 < min_list n" "0 \<le> min_list x"
    by (auto simp: min_list_gr_iff[OF length_2_nonempty] min_list_ge_iff[OF length_2_nonempty])
  with h show "test x n RR alt cl =
        Inl (AssertionError '''conf.level' must be a single number between 0 and 1'')"
    by (auto simp: test_def Let_def)
next
  assume "\<not> valid_args x n RR alt cl"
  then show "\<exists>msg. test x n RR alt cl = Inl (AssertionError msg)"
    by (rule test_invalid)
qed

theorem invalid_arguments_raise_witness:
  "p_adjust (PyList [1/2]) ''holm'' None =
     Inl (AssertionError ''ERROR! method must be one of fdr,bonferroni,none'') \<and>
   test [1, 2, 3] [1, 1] 1 ''two.sided'' (19/20) =
     Inl (AssertionError ''x must have a length 2'') \<and>
   test [1, 2] [1, 1, 1] 1 ''two.sided'' (19/20) =
     Inl (AssertionError '''x' and 'n' must have the same length'') \<and>
   test [1, 2] [1, 0] 1 ''two.sided'' (19/20) =
     Inl (AssertionError ''elements of 'n' must be positive'') \<and>
   test [1, - 2] [1, 1] 1 ''two.sided'' (19/20) =
     Inl (AssertionError ''elements of 'x' must be nonnegative'') \<and>
   test [1, 2] [1, 1] 0 ''two.sided'' (19/20) =
     Inl (AssertionError ''RR must be greater than 0'') \<and>
   test [1, 2] [1, 1] 1 ''both'' (19/20) = Inl (AssertionError alternative_message) \<and>
   test [1, 2] [1, 1] 1 ''two.sided'' 1 =
     Inl (AssertionError '''conf.level' must be a single number between 0 and 1'')"
proof (intro conjI)
  show "p_adjust (PyList [1/2]) ''holm'' None =
     Inl (AssertionError ''ERROR! method must be one of fdr,bonferroni,none'')"
    using invalid_arguments_raise[of "''holm''" "PyList [1/2]" None]
    by (simp add: lower_holm)
  show "test [1, 2, 3] [1, 1] 1 ''two.sided'' (19/20) =
     Inl (AssertionError ''x must have a length 2'')"
    using invalid_arguments_raise[of _ _ _ "[1, 2, 3]" "[1, 1]" 1 "''two.sided''" "19/20"]
    by simp
  show "test [1, 2] [1, 1, 1] 1 ''two.sided'' (19/20) =
     Inl (AssertionError '''x' and 'n' must have the same length'')"
    using invalid_arguments_raise[of _ _ _ "[1, 2]" "[1, 1, 1]" 1 "''two.sided''" "19/20"]
    by simp
  show "test [1, 2] [1, 0] 1 ''two.sided'' (19/20) =
     Inl (AssertionError ''elements of 'n' must be positive'')"
    using invalid_arguments_raise[of _ _ _ "[1, 2]" "[1, 0]" 1 "''two.sided''" "19/20"]
    by simp
  show "test [1, - 2] [1, 1] 1 ''two.sided'' (19/20) =
     Inl (AssertionError ''elements of 'x' must be nonnegative'')"
    using invalid_arguments_raise[of _ _ _ "[1, - 2]" "[1, 1]" 1 "''two.sided''" "19/20"]
    by simp
  show "test [1, 2] [1, 1] 0 ''two.sided'' (19/20) =
     Inl (AssertionError ''RR must be greater than 0'')"
    using invalid_arguments_raise[of _ _ _ "[1, 2]" "[1, 1]" 0 "''two.sided''" "19/20"]
    by simp
  show "test [1, 2] [1, 1] 1 ''both'' (19/20) = Inl (AssertionError alternative_message)"
    using invalid_arguments_raise[of _ _ _ "[1, 2]" "[1, 1]" 1 "''both''" "19/20"]
    by (simp add: match_arg_def)
  show "test [1, 2] [1, 1] 1 ''two.sided'' 1 =
     Inl (AssertionError '''conf.level' must be a single number between 0 and 1'')"
    using invalid_arguments_raise[of _ _ _ "[1, 2]" "[1, 1]" 1 "''two.sided''" 1]
    by (simp add: match_arg_def)
qed

subsection \<open>A second count of zero\<close>

text \<open>
  Claim C10: for every input that passes the argument checks and whose second count is
  \<open>0\<close>, \<^verbatim>\<open>test\<close> raises a division-by-zero error while computing the point estimate
  \<^verbatim>\<open>(1.*Y/N)/(1.*X/M)\<close>, and returns no result.
\<close>

theorem zero_second_count_raises:
  assumes "valid_args x n RR alt cl" and "x ! 1 = 0"
  shows "test x n RR alt cl = Inl ZeroDivisionError"
  using assms by (auto simp: valid_args_def test_def Let_def)

theorem zero_second_count_raises_witness:
  "valid_args [2, 0] [17877, 16660] 1 ''two.sided'' (19/20) \<and> [2, 0 :: int] ! 1 = 0 \<and>
   test [2, 0] [17877, 16660] 1 ''two.sided'' (19/20) = Inl ZeroDivisionError"
  using zero_second_count_raises[of "[2, 0]" "[17877, 16660]" 1 "''two.sided''" "19/20"]
  by (simp add: valid_args_def match_arg_def)

subsection \<open>What the test returns when the second count is positive\<close>

lemma ratio_bound_p_L:
  "0 < N \<Longrightarrow>
   ratio_bound (p_L Y T a) N M = Inr (spec_transform (spec_lower_proportion Y T a) N M)"
  by (simp add: p_L_def spec_lower_proportion_def spec_transform_def np_div_def)

lemma ratio_bound_p_U:
  "Y \<noteq> T \<Longrightarrow>
   ratio_bound (p_U Y T a) N M = Inr (spec_transform (spec_upper_proportion Y T a) N M)"
  by (simp add: p_U_def spec_upper_proportion_def spec_transform_def)

lemma test_valid:
  assumes "valid_args [x0, x1] [n0, n1] RR alt cl" and "x1 \<noteq> 0"
  shows "test [x0, x1] [n0, n1] RR alt cl =
     Inr \<lparr>p_value =
            (if match_arg alt = ''less'' then pbinom x0 (x0 + x1) (n0 * RR / (n0 * RR + n1))
             else if match_arg alt = ''greater''
             then 1 - pbinom (x0 - 1) (x0 + x1) (n0 * RR / (n0 * RR + n1))
             else min 1 (2 * min (pbinom x0 (x0 + x1) (n0 * RR / (n0 * RR + n1)))
                                 (1 - pbinom (x0 - 1) (x0 + x1) (n0 * RR / (n0 * RR + n1))))),
          estimate = [(real_of_int x0 / n0) / (real_of_int x1 / n1),
                      real_of_int x0 / n0, real_of_int x1 / n1],
          null_value = RR,
          conf_int =
            (if match_arg alt = ''less'' then
               [Fin 0, spec_transform (spec_upper_proportion x0 (x0 + x1) (1 - cl)) n0 n1,
                Fin cl]
             else if match_arg alt = ''greater'' then
               [spec_transform (spec_lower_proportion x0 (x0 + x1) (1 - cl)) n0 n1, PInf,
                Fin cl]
             else
               [spec_transform (spec_lower_proportion x0 (x0 + x1) ((1 - cl) / 2)) n0 n1,
                spec_transform (spec_upper_proportion x0 (x0 + x1) ((1 - cl) / 2)) n0 n1,
                Fin cl]),
          alternative = match_arg alt,
          method_descr = ''Exact Rate Ratio Test, assuming Poisson counts''\<rparr>"
proof -
  from assms have pos: "0 < n0" "0 < n1" "0 \<le> x0" "0 \<le> x1" "0 < RR" "0 < cl" "cl < 1"
    and alt: "match_arg alt \<in> {''two.sided'', ''less'', ''greater''}"
    by (simp_all add: valid_args_pair)
  from assms(2) have ne: "x0 \<noteq> x0 + x1" by simp
  have checks: "\<not> (real_of_int x1 / n1 = 0)"
    using pos assms(2) by simp
  show ?thesis
    using pos alt checks
    by (auto simp: test_def Let_def p_value_and_interval_def ratio_bound_p_L
        ratio_bound_p_U[OF ne] add.commute)
qed

text \<open>
  Claim C2 says that for every valid pair of counts, exposures and \<open>RR > 0\<close> the p-value
  that \<^verbatim>\<open>test\<close> returns is \<open>pval_less\<close>, \<open>pval_greater\<close> or
  \<open>min(1, 2 * min(pval_less, pval_greater))\<close>, by alternative. It is when the second count
  is positive (\<open>test_valid\<close>). With a second count of \<open>0\<close>, which the argument checks
  accept, the call raises \<open>ZeroDivisionError\<close> at line 156, before any p-value is
  computed.
\<close>

theorem zero_second_count_no_p_value:
  "test [5, 0] [100, 100] 1 ''two.sided'' (19/20) = Inl ZeroDivisionError"
  by (simp add: test_def match_arg_def)

subsection \<open>The interval\<close>

lemma pbeta_2_1: "pbeta x 2 (Suc 0) = x * x"
  by (simp add: pbeta_def power2_eq_square)

lemma pbeta_1_2: "pbeta x (Suc 0) 2 = 2 * x - x * x"
  by (simp add: pbeta_def numeral_2_eq_2 power2_eq_square algebra_simps)

text \<open>
  Beta(2, 1) has the distribution function \<open>x\<^sup>2\<close>, Beta(1, 2) has
  \<open>1 - (1 - x)\<^sup>2\<close>; their quantiles at \<open>16/25\<close> and \<open>9/25\<close> are rational.
\<close>

lemma qbeta_2_1: "qbeta (16/25) 2 1 = 4/5"
  unfolding qbeta_def
proof (rule the_equality)
  show "0 \<le> (4/5::real) \<and> (4/5::real) \<le> 1 \<and> pbeta (4/5) (nat 2) (nat 1) = 16/25"
    by (simp add: pbeta_2_1)
next
  fix x :: real
  assume h: "0 \<le> x \<and> x \<le> 1 \<and> pbeta x (nat 2) (nat 1) = 16/25"
  then have "x\<^sup>2 = (4/5)\<^sup>2"
    by (simp add: pbeta_2_1 power2_eq_square)
  with h show "x = 4/5"
    by (simp add: power2_eq_iff_nonneg)
qed

lemma qbeta_1_2: "qbeta (9/25) 1 2 = 1/5"
  unfolding qbeta_def
proof (rule the_equality)
  show "0 \<le> (1/5::real) \<and> (1/5::real) \<le> 1 \<and> pbeta (1/5) (nat 1) (nat 2) = 9/25"
    by (simp add: pbeta_1_2)
next
  fix x :: real
  assume h: "0 \<le> x \<and> x \<le> 1 \<and> pbeta x (nat 1) (nat 2) = 9/25"
  then have "(1 - x)\<^sup>2 = (4/5)\<^sup>2"
    by (simp add: pbeta_1_2 power2_eq_square algebra_simps)
  with h have "1 - x = 4/5"
    by (simp add: power2_eq_iff_nonneg)
  then show "x = 1/5" by simp
qed

text \<open>
  Claim C3 says that the interval is \<open>[0, T(pL)]\<close> under \<open>less\<close> and \<open>[T(pU), +\<infinity>)\<close>
  under \<open>greater\<close>, with \<open>pL\<close> the lower-bound and \<open>pU\<close> the upper-bound proportion at
  tail \<open>1 - conf_level\<close>. The code does the opposite: line 164 calls \<^verbatim>\<open>p_U\<close> under
  \<open>less\<close> and line 168 calls \<^verbatim>\<open>p_L\<close> under \<open>greater\<close>. For the counts \<open>(1, 1)\<close>, the
  exposures \<open>(1, 1)\<close>, \<open>RR = 1\<close> and \<open>conf_level = 0.64\<close> under \<open>less\<close>, the interval
  returned is \<open>[0, 4]\<close> (followed by the level), from the upper-bound proportion \<open>4/5\<close>;
  the interval of the claim is \<open>[0, 1/4]\<close>, from the lower-bound proportion \<open>1/5\<close>.
\<close>

theorem less_interval_uses_upper_proportion:
  "map_sum id conf_int (test [1, 1] [1, 1] 1 ''less'' (16/25)) =
     Inr [Fin 0, Fin 4, Fin (16/25)] \<and>
   spec_conf_int ''less'' 1 1 1 1 (16/25) = [Fin 0, Fin (1/4)]"
  by (simp add: test_def match_arg_def p_value_and_interval_def p_U_def qbeta_2_1 np_div_def
      Let_def spec_conf_int_def spec_lower_proportion_def spec_transform_def qbeta_1_2)

text \<open>
  Claim C3, amended: for every input that passes the argument checks and has a positive
  second count, the interval that \<^verbatim>\<open>test\<close> returns, followed by \<open>conf_level\<close> as a
  third element, is \<open>[0, T(pU)]\<close> under \<open>less\<close>, with \<open>pU\<close> the upper-bound proportion
  at tail \<open>1 - conf_level\<close>; \<open>[T(pL), +\<infinity>)\<close> under \<open>greater\<close>, with \<open>pL\<close> the
  lower-bound proportion at tail \<open>1 - conf_level\<close>; and \<open>[T(pL), T(pU)]\<close> under
  \<open>two.sided\<close>, both at tail \<open>(1 - conf_level) / 2\<close>. Here \<open>T(q) = (q * n1) / (n0 * (1 - q))\<close>;
  the lower-bound proportion for \<open>x\<close> out of \<open>N\<close> at tail \<open>a\<close> is \<open>0\<close> if \<open>x = 0\<close> and
  otherwise the \<open>a\<close>-quantile of Beta(\<open>x\<close>, \<open>N - x + 1\<close>); the upper-bound proportion is
  \<open>1\<close> if \<open>x = N\<close> and otherwise the \<open>(1 - a)\<close>-quantile of Beta(\<open>x + 1\<close>, \<open>N - x\<close>).
\<close>

theorem test_conf_int_by_alternative:
  assumes "valid_args [x0, x1] [n0, n1] RR alt cl" and "x1 \<noteq> 0"
  shows "\<exists>r. test [x0, x1] [n0, n1] RR alt cl = Inr r \<and>
     conf_int r =
       (if match_arg alt = ''less'' then
          [Fin 0, spec_transform (spec_upper_proportion x0 (x0 + x1) (1 - cl)) n0 n1, Fin cl]
        else if match_arg alt = ''greater'' then
          [spec_transform (spec_lower_proportion x0 (x0 + x1) (1 - cl)) n0 n1, PInf, Fin cl]
        else
          [spec_transform (spec_lower_proportion x0 (x0 + x1) ((1 - cl) / 2)) n0 n1,
           spec_transform (spec_upper_proportion x0 (x0 + x1) ((1 - cl) / 2)) n0 n1,
           Fin cl])"
  by (simp add: test_valid[OF assms])

theorem test_conf_int_by_alternative_witness:
  "valid_args [2, 9] [17877, 16660] 1 ''two.sided'' (19/20) \<and> (9::int) \<noteq> 0 \<and>
   (\<exists>r. test [2, 9] [17877, 16660] 1 ''two.sided'' (19/20) = Inr r \<and>
     conf_int r =
       [spec_transform (spec_lower_proportion 2 11 (1/40)) 17877 16660,
        spec_transform (spec_upper_proportion 2 11 (1/40)) 17877 16660,
        Fin (19/20)])"
  using test_conf_int_by_alternative[of 2 9 17877 16660 1 "''two.sided''" "19/20"]
  by (simp add: valid_args_def match_arg_def)

subsection \<open>Exchanging the two groups\<close>

lemma binomial_total: "(\<Sum>j\<le>N. real (N choose j) * p ^ j * (1 - p) ^ (N - j)) = 1"
  using binomial_ring[of p "1 - p" N] by simp

lemma binomial_upper_tail:
  "(\<Sum>i\<le>b. real ((a + b) choose i) * (1 - p) ^ i * p ^ (a + b - i)) =
   1 - (\<Sum>j<a. real ((a + b) choose j) * p ^ j * (1 - p) ^ (a + b - j))"
proof -
  define N where "N = a + b"
  define f where "f j = real (N choose j) * p ^ j * (1 - p) ^ (N - j)" for j
  have "(\<Sum>i\<le>b. real (N choose i) * (1 - p) ^ i * p ^ (N - i)) = (\<Sum>i\<le>b. f (N - i))"
  proof (rule sum.cong)
    fix i assume "i \<in> {..b}"
    then have "i \<le> N" by (simp add: N_def)
    then show "real (N choose i) * (1 - p) ^ i * p ^ (N - i) = f (N - i)"
      by (simp add: f_def binomial_symmetric[of i N])
  qed simp
  also have "\<dots> = (\<Sum>j\<in>{a..N}. f j)"
    by (rule sum.reindex_bij_witness[where i = "\<lambda>j. N - j" and j = "\<lambda>i. N - i"])
       (auto simp: N_def)
  finally have upper:
    "(\<Sum>i\<le>b. real (N choose i) * (1 - p) ^ i * p ^ (N - i)) = sum f {a..N}" .
  have "sum f {0..<a} + sum f {a..<Suc N} = sum f {0..<Suc N}"
    by (rule sum.atLeastLessThan_concat) (simp_all add: N_def)
  moreover have "sum f {0..<Suc N} = 1"
    using binomial_total[of N p]
    by (simp add: f_def atMost_atLeast0 atLeastLessThanSuc_atLeastAtMost)
  ultimately have "sum f {a..N} = 1 - sum f {..<a}"
    by (simp add: lessThan_atLeast0 atLeastLessThanSuc_atLeastAtMost)
  with upper show ?thesis
    by (simp add: N_def f_def)
qed

text \<open>
  The probability that Binomial(\<open>x0 + x1\<close>, \<open>p\<close>) is at least \<open>x0\<close> is the probability
  that Binomial(\<open>x0 + x1\<close>, \<open>1 - p\<close>) is at most \<open>x1\<close>.
\<close>

lemma pbinom_swap:
  assumes "0 \<le> x0" "0 \<le> x1"
  shows "1 - pbinom (x0 - 1) (x0 + x1) p = pbinom x1 (x0 + x1) (1 - p)"
proof -
  obtain a b where ab: "x0 = int a" "x1 = int b"
    using assms by (metis nonneg_int_cases)
  have "pbinom (int a - 1) (int a + int b) p
      = (\<Sum>j<a. real ((a + b) choose j) * p ^ j * (1 - p) ^ (a + b - j))"
  proof (cases a)
    case 0
    then show ?thesis by (simp add: pbinom_def)
  next
    case (Suc m)
    then show ?thesis
      by (simp add: pbinom_def nat_add_distrib lessThan_Suc_atMost min_def)
  qed
  moreover have "pbinom (int b) (int a + int b) (1 - p)
      = (\<Sum>i\<le>b. real ((a + b) choose i) * (1 - p) ^ i * p ^ (a + b - i))"
    by (simp add: pbinom_def nat_add_distrib min_def)
  ultimately show ?thesis
    by (simp add: ab binomial_upper_tail)
qed

text \<open>
  With both counts positive, the p-value under \<open>greater\<close> is the p-value under \<open>less\<close>
  of the test with the groups exchanged and the rate ratio inverted.
\<close>

lemma test_swap_p_value:
  assumes "valid_args [x0, x1] [n0, n1] RR ''greater'' cl" and "x0 \<noteq> 0" and "x1 \<noteq> 0"
  shows "\<exists>r r'. test [x0, x1] [n0, n1] RR ''greater'' cl = Inr r \<and>
                 test [x1, x0] [n1, n0] (1 / RR) ''less'' cl = Inr r' \<and>
                 p_value r = p_value r'"
proof -
  from assms(1) have pos: "0 < n0" "0 < n1" "0 \<le> x0" "0 \<le> x1" "0 < RR" "0 < cl" "cl < 1"
    by (simp_all add: valid_args_pair)
  then have valid': "valid_args [x1, x0] [n1, n0] (1 / RR) ''less'' cl"
    by (simp add: valid_args_pair match_arg_def)
  define p where "p = n0 * RR / (n0 * RR + n1)"
  have "n0 * RR + n1 > 0" using pos by (simp add: add_pos_pos)
  then have p': "n1 * (1 / RR) / (n1 * (1 / RR) + n0) = 1 - p"
    using pos by (simp add: p_def field_simps)
  have swap: "1 - pbinom (x0 - 1) (x0 + x1) p = pbinom x1 (x1 + x0) (1 - p)"
    using pbinom_swap[OF pos(3) pos(4), of p] by (simp add: add.commute)
  obtain r where r: "test [x0, x1] [n0, n1] RR ''greater'' cl = Inr r"
    and pr: "p_value r = 1 - pbinom (x0 - 1) (x0 + x1) (n0 * RR / (n0 * RR + n1))"
    using test_valid[OF assms(1) assms(3)] by (simp add: match_arg_def)
  obtain r' where r': "test [x1, x0] [n1, n0] (1 / RR) ''less'' cl = Inr r'"
    and pr': "p_value r' = pbinom x1 (x1 + x0) (n1 * (1 / RR) / (n1 * (1 / RR) + n0))"
    using test_valid[OF valid' assms(2)] by (simp add: match_arg_def)
  from pr have "p_value r = 1 - pbinom (x0 - 1) (x0 + x1) p"
    by (simp only: p_def)
  also have "\<dots> = pbinom x1 (x1 + x0) (1 - p)"
    by (rule swap)
  also have "\<dots> = p_value r'"
    by (simp only: pr' p')
  finally show ?thesis
    using r r' by blast
qed

text \<open>
  Claim C8 says that for every valid pair of counts \<open>(x0, x1)\<close>, exposures and \<open>RR > 0\<close>
  the p-value of \<^verbatim>\<open>test((x0, x1), (n0, n1), RR, "greater")\<close> is the p-value of
  \<^verbatim>\<open>test((x1, x0), (n1, n0), 1/RR, "less")\<close>. It is when both counts are positive
  (\<open>test_swap_p_value\<close>). For the counts \<open>(3, 0)\<close> the first call raises
  \<open>ZeroDivisionError\<close> at line 156 and has no p-value, while the second returns the
  p-value \<open>1/8\<close>.
\<close>

theorem swap_zero_count_asymmetric:
  "test [3, 0] [1, 1] 1 ''greater'' (19/20) = Inl ZeroDivisionError \<and>
   map_sum id p_value (test [0, 3] [1, 1] (1 / 1) ''less'' (19/20)) = Inr (1/8)"
  by (simp add: test_def match_arg_def p_value_and_interval_def p_U_def np_div_def
      pbinom_def Let_def power3_eq_cube)

end
